theory Spec2Isabelle
  imports Main "HOL-Library.Word"
begin

section \<open>The bridge transport facade of util\_bridgecommand.h\<close>

text \<open>
  The header defines the class template \<open>Bridge<BridgeId>\<close>: static inline methods over
  two process-wide channel pointers and the global \<open>gbBridgeRunning\<close>, and the nested
  class \<open>Command\<close>. Every method is a short sequence of calls into collaborators that
  other files define (the data and command queues, \<open>syncDataQueue\<close>, \<open>waitForCommand\<close>,
  \<open>pop_front\<close>, \<open>align\<close>, \<open>Logger::err\<close>). The embedding below keeps that shape:

  \<^item> the process-wide state is a record, passed in and returned;
  \<^item> the collaborators are the fields of a record of functions, so every theorem holds
    for whatever they do;
  \<^item> each method also returns the list of collaborator calls it made, in program order,
    so that statements about which calls happen, how often and in which order are
    statements about that list;
  \<^item> \<open>size_t\<close> values are natural numbers: the only arithmetic on them here is
    \<open>x / 4 + 1\<close> and \<open><\<close>, which cannot wrap around; data words are 32-bit words;
  \<^item> the two preprocessor switches that change behaviour, \<open>USE_BLOCKING_QUEUE\<close> and
    \<open>NDEBUG\<close> (which compiles \<open>assert\<close> out), are boolean fields of the same record;
  \<^item> so is the one fact about the target that changes behaviour: whether \<open>size_t\<close> and
    \<open>uint32_t\<close> are the same type, as in the 32-bit build, or not, as in the 64-bit one.

  The profiling macro \<open>ZoneScoped\<close> has no effect on the state and is left out. The
  model is sequential: it describes one call running to its end with no other thread or
  process touching the channels meanwhile.
\<close>

subsection \<open>Data\<close>

type_synonym DataT = "32 word"
type_synonym byte = "8 word"
type_synonym pointer = nat

definition nullptr :: pointer where
  "nullptr = 0"

definition sizeof_DataT :: nat where
  "sizeof_DataT = 4"

text \<open>
  Modelled from the spec: the enum \<open>bridge_util::Result\<close> is declared in util\_common.h,
  which is not among the sources; the spec names success, timeout and failure.
\<close>

datatype Result = Success | Failure | Timeout

text \<open>
  Modelled from the spec: \<open>Commands::D3D9Command\<close> is declared in util\_commands.h. The
  header names two of its values, \<open>Bridge_Any\<close> and \<open>Bridge_Response\<close>; every other
  command is kept by its number.
\<close>

datatype D3D9Command = Bridge_Any | Bridge_Response | Api_command nat

text \<open>
  Modelled from the spec: a header is the fixed-size record of a command id, an opaque
  32-bit handle and a flag set.
\<close>

record Header =
  command :: D3D9Command
  pHandle :: "32 word"
  commandFlags :: "32 word"

text \<open>
  A channel bundles a command queue, a data queue and the flag behind the pointer
  \<open>serverResetPosRequired\<close>. The queue types are parameters.
\<close>

record ('cq, 'dq) Channel =
  commands :: 'cq
  data :: 'dq
  serverResetPosRequired :: bool

record ('cq, 'dq) Bridge =
  gbBridgeRunning :: bool
  s_pWriterChannel :: "('cq, 'dq) Channel"
  s_pReaderChannel :: "('cq, 'dq) Channel"

text \<open>The collaborator calls a method makes, with their arguments.\<close>

datatype call =
    Commands_begin_write_batch
  | Commands_end_write_batch
  | Data_get_pos
  | Data_pull
  | Data_pull_obj
  | Data_pull_and_copy
  | Data_begin_batch
  | Data_end_batch
  | Data_push DataT
  | Data_push_blob DataT "byte list"
  | Data_push_many "DataT list"
  | Data_begin_blob_push nat
  | Data_end_blob_push
  | SyncDataQueue nat bool
  | WaitForCommand D3D9Command "32 word" "bool option"
  | Pop_front
  | Logger_err string

text \<open>
  The collaborators. A queue method takes the queue and returns its result with the
  queue after the call; \<open>pop_front\<close>, \<open>syncDataQueue\<close> and \<open>waitForCommand\<close> are
  static methods of \<open>Bridge\<close> that the header only declares, and work on the whole
  state. An out-parameter (\<open>void** obj\<close>, \<open>T& obj\<close>, \<open>uint8_t*& blobPacketPtr\<close>) is
  returned beside the result. \<open>std::atomic<bool>* pbEarlyOutSignal\<close> is \<open>None\<close> for the
  null pointer and otherwise the value behind it.
\<close>

record ('cq, 'dq) Collab =
  USE_BLOCKING_QUEUE :: bool
  NDEBUG :: bool
  size_t_is_uint32_t :: bool
  RESULT_FAILURE :: "Result \<Rightarrow> bool"
  align :: "nat \<Rightarrow> nat \<Rightarrow> nat"
  commands_begin_write_batch :: "'cq \<Rightarrow> Result \<times> 'cq"
  commands_end_write_batch :: "'cq \<Rightarrow> nat \<times> 'cq"
  data_get_pos :: "'dq \<Rightarrow> nat"
  data_pull :: "'dq \<Rightarrow> DataT \<times> 'dq"
  data_pull_obj :: "pointer \<Rightarrow> 'dq \<Rightarrow> (DataT \<times> pointer) \<times> 'dq"
  data_pull_and_copy :: "byte list \<Rightarrow> 'dq \<Rightarrow> (DataT \<times> byte list) \<times> 'dq"
  data_begin_batch :: "'dq \<Rightarrow> Result \<times> 'dq"
  data_end_batch :: "'dq \<Rightarrow> nat \<times> 'dq"
  data_push :: "DataT \<Rightarrow> 'dq \<Rightarrow> Result \<times> 'dq"
  data_push_blob :: "DataT \<Rightarrow> byte list \<Rightarrow> 'dq \<Rightarrow> Result \<times> 'dq"
  data_push_many :: "DataT list \<Rightarrow> 'dq \<Rightarrow> Result \<times> 'dq"
  data_begin_blob_push :: "nat \<Rightarrow> 'dq \<Rightarrow> (Result \<times> pointer) \<times> 'dq"
  data_end_blob_push :: "'dq \<Rightarrow> 'dq"
  pop_front :: "('cq, 'dq) Bridge \<Rightarrow> Header \<times> ('cq, 'dq) Bridge"
  syncDataQueue :: "nat \<Rightarrow> bool \<Rightarrow> ('cq, 'dq) Bridge \<Rightarrow> ('cq, 'dq) Bridge"
  waitForCommand ::
    "D3D9Command \<Rightarrow> 32 word \<Rightarrow> bool option \<Rightarrow> ('cq, 'dq) Bridge \<Rightarrow> Result \<times> ('cq, 'dq) Bridge"

text \<open>
  A call either returns its value or stops at a failed \<open>assert\<close>, which ends the
  process; the shared channel state it leaves behind is still there for the peer.
\<close>

datatype 'a outcome = Returned 'a | Assertion_failed

text \<open>
  What a returned \<open>const T&\<close> gives its caller: an object that is still alive, or a
  temporary that the \<open>return\<close> statement created and destroyed, which must not be read.
\<close>

datatype 'a const_ref = Refers 'a | Dangling

text \<open>Storing a queue back into its channel.\<close>

definition reader_data_upd :: "'dq \<Rightarrow> ('cq, 'dq) Bridge \<Rightarrow> ('cq, 'dq) Bridge" where
  "reader_data_upd q s = s\<lparr>s_pReaderChannel := (s_pReaderChannel s)\<lparr>data := q\<rparr>\<rparr>"

definition writer_data_upd :: "'dq \<Rightarrow> ('cq, 'dq) Bridge \<Rightarrow> ('cq, 'dq) Bridge" where
  "writer_data_upd q s = s\<lparr>s_pWriterChannel := (s_pWriterChannel s)\<lparr>data := q\<rparr>\<rparr>"

definition writer_commands_upd :: "'cq \<Rightarrow> ('cq, 'dq) Bridge \<Rightarrow> ('cq, 'dq) Bridge" where
  "writer_commands_upd q s = s\<lparr>s_pWriterChannel := (s_pWriterChannel s)\<lparr>commands := q\<rparr>\<rparr>"

subsection \<open>Channel writing methods\<close>

definition begin_batch ::
  "('cq, 'dq) Collab \<Rightarrow> ('cq, 'dq) Bridge \<Rightarrow> Result \<times> call list \<times> ('cq, 'dq) Bridge" where
  "begin_batch E s =
     (if USE_BLOCKING_QUEUE E \<and> gbBridgeRunning s then
        (let (r, q) = commands_begin_write_batch E (commands (s_pWriterChannel s))
         in (r, [Commands_begin_write_batch], writer_commands_upd q s))
      else (Failure, [], s))"

definition end_batch ::
  "('cq, 'dq) Collab \<Rightarrow> ('cq, 'dq) Bridge \<Rightarrow> nat \<times> call list \<times> ('cq, 'dq) Bridge" where
  "end_batch E s =
     (if USE_BLOCKING_QUEUE E \<and> gbBridgeRunning s then
        (let (n, q) = commands_end_write_batch E (commands (s_pWriterChannel s))
         in (n, [Commands_end_write_batch], writer_commands_upd q s))
      else (0, [], s))"

subsection \<open>Channel reading methods\<close>

definition get_data_pos :: "('cq, 'dq) Collab \<Rightarrow> ('cq, 'dq) Bridge \<Rightarrow> nat \<times> call list" where
  "get_data_pos E s = (data_get_pos E (data (s_pReaderChannel s)), [Data_get_pos])"

text \<open>
  The block under the comment \<open>Check if the server completed a loop\<close>, which the three
  readers repeat word for word. \<open>&&\<close> evaluates its right operand, the second call of
  \<open>get_data_pos\<close>, only when the flag is set.
\<close>

definition server_completed_loop ::
  "('cq, 'dq) Collab \<Rightarrow> nat \<Rightarrow> ('cq, 'dq) Bridge \<Rightarrow> call list \<times> ('cq, 'dq) Bridge" where
  "server_completed_loop E prevPos s =
     (if serverResetPosRequired (s_pReaderChannel s) then
        (let (pos, c) = get_data_pos E s
         in if pos < prevPos
            then (c, s\<lparr>s_pReaderChannel := (s_pReaderChannel s)\<lparr>serverResetPosRequired := False\<rparr>\<rparr>)
            else (c, s))
      else ([], s))"

definition get_data ::
  "('cq, 'dq) Collab \<Rightarrow> ('cq, 'dq) Bridge \<Rightarrow> DataT \<times> call list \<times> ('cq, 'dq) Bridge" where
  "get_data E s =
     (let (prevPos, c1) = get_data_pos E s;
          (retval, q) = data_pull E (data (s_pReaderChannel s));
          (c2, s') = server_completed_loop E prevPos (reader_data_upd q s)
      in (retval, c1 @ [Data_pull] @ c2, s'))"

text \<open>The overload \<open>get_data(void** obj)\<close>; the pointer stored through \<open>obj\<close> is returned.\<close>

definition get_data_obj ::
  "('cq, 'dq) Collab \<Rightarrow> pointer \<Rightarrow> ('cq, 'dq) Bridge
     \<Rightarrow> (DataT \<times> pointer) \<times> call list \<times> ('cq, 'dq) Bridge" where
  "get_data_obj E obj s =
     (let (prevPos, c1) = get_data_pos E s;
          (retval, q) = data_pull_obj E obj (data (s_pReaderChannel s));
          (c2, s') = server_completed_loop E prevPos (reader_data_upd q s)
      in (retval, c1 @ [Data_pull_obj] @ c2, s'))"

text \<open>
  \<open>copy_data<T>(obj, checkSize)\<close>: \<open>sizeof_T\<close> is \<open>sizeof(T)\<close> and \<open>obj\<close> the bytes of the
  target object. The method is declared to return \<open>const size_t&\<close> and returns
  \<open>retval\<close>, a \<open>const DataT&\<close> into the queue. Where \<open>size_t\<close> is \<open>uint32_t\<close> the
  result refers to the size word itself. Where it is a different type, \<open>return retval\<close>
  converts the word to a temporary \<open>size_t\<close> and returns a reference to that temporary,
  which is gone when the caller holds the reference. The result is paired with the
  object after the copy. With \<open>checkSize\<close> set and a size word different from \<open>sizeof(T)\<close> the
  \<open>assert\<close> stops the process unless \<open>NDEBUG\<close> compiled it out; then the error is logged
  and the method goes on.
\<close>

definition copy_data ::
  "('cq, 'dq) Collab \<Rightarrow> nat \<Rightarrow> byte list \<Rightarrow> bool \<Rightarrow> ('cq, 'dq) Bridge
     \<Rightarrow> (nat const_ref \<times> byte list) outcome \<times> call list \<times> ('cq, 'dq) Bridge" where
  "copy_data E sizeof_T obj checkSize s =
     (let (prevPos, c1) = get_data_pos E s;
          ((retval, obj'), q) = data_pull_and_copy E obj (data (s_pReaderChannel s));
          s1 = reader_data_upd q s
      in if checkSize \<and> \<not> NDEBUG E \<and> unat retval \<noteq> sizeof_T
         then (Assertion_failed, c1 @ [Data_pull_and_copy], s1)
         else
           (let c2 = (if checkSize \<and> unat retval \<noteq> sizeof_T
                      then [Logger_err
                        ''DataQueue copy data: Size of source and target object does not match!'']
                      else []);
                (c3, s') = server_completed_loop E prevPos s1
            in (Returned (if size_t_is_uint32_t E then Refers (unat retval) else Dangling, obj'),
                c1 @ [Data_pull_and_copy] @ c2 @ c3, s')))"

definition begin_read_data ::
  "('cq, 'dq) Collab \<Rightarrow> ('cq, 'dq) Bridge \<Rightarrow> Result \<times> call list \<times> ('cq, 'dq) Bridge" where
  "begin_read_data E s =
     (if gbBridgeRunning s then
        (let (r, q) = data_begin_batch E (data (s_pReaderChannel s))
         in (r, [Data_begin_batch], reader_data_upd q s))
      else (Failure, [], s))"

definition end_read_data ::
  "('cq, 'dq) Collab \<Rightarrow> ('cq, 'dq) Bridge \<Rightarrow> nat \<times> call list \<times> ('cq, 'dq) Bridge" where
  "end_read_data E s =
     (if gbBridgeRunning s then
        (let (n, q) = data_end_batch E (data (s_pReaderChannel s))
         in (n, [Data_end_batch], reader_data_upd q s))
      else (0, [], s))"

subsection \<open>Channel waiting methods\<close>

definition waitForCommandAndDiscard ::
  "('cq, 'dq) Collab \<Rightarrow> D3D9Command \<Rightarrow> 32 word \<Rightarrow> bool option \<Rightarrow> ('cq, 'dq) Bridge
     \<Rightarrow> Result \<times> call list \<times> ('cq, 'dq) Bridge" where
  "waitForCommandAndDiscard E cmd overrideTimeoutMS pbEarlyOutSignal s =
     (let (result, s1) = waitForCommand E cmd overrideTimeoutMS pbEarlyOutSignal s;
          c1 = [WaitForCommand cmd overrideTimeoutMS pbEarlyOutSignal]
      in if Success = result
         then (let (h, s2) = pop_front E s1 in (result, c1 @ [Pop_front], s2))
         else (result, c1, s1))"

subsection \<open>The methods of Command\<close>

text \<open>
  None of them reads a member of the \<open>Command\<close> object, so the object is not an
  argument. A \<open>void\<close> method returns the unit value.
\<close>

definition logged_failure :: "('cq, 'dq) Collab \<Rightarrow> Result \<Rightarrow> string \<Rightarrow> call list" where
  "logged_failure E result msg = (if RESULT_FAILURE E result then [Logger_err msg] else [])"

definition send_data ::
  "('cq, 'dq) Collab \<Rightarrow> DataT \<Rightarrow> ('cq, 'dq) Bridge \<Rightarrow> unit \<times> call list \<times> ('cq, 'dq) Bridge" where
  "send_data E obj s =
     (if gbBridgeRunning s then
        (let s1 = syncDataQueue E 1 False s;
             (result, q) = data_push E obj (data (s_pWriterChannel s1))
         in ((), [SyncDataQueue 1 False, Data_push obj]
               @ logged_failure E result ''DataQueue send_data: Failed to send data!'',
             writer_data_upd q s1))
      else ((), [], s))"

text \<open>The overload \<open>send_data(const DataT size, const void* obj)\<close>; \<open>obj\<close> is the bytes pointed to.\<close>

definition send_data_blob ::
  "('cq, 'dq) Collab \<Rightarrow> DataT \<Rightarrow> byte list \<Rightarrow> ('cq, 'dq) Bridge
     \<Rightarrow> unit \<times> call list \<times> ('cq, 'dq) Bridge" where
  "send_data_blob E size_w obj s =
     (if gbBridgeRunning s then
        (let memUsed = align E (unat size_w) sizeof_DataT div sizeof_DataT + 1;
             s1 = syncDataQueue E memUsed True s;
             (result, q) = data_push_blob E size_w obj (data (s_pWriterChannel s1))
         in ((), [SyncDataQueue memUsed True, Data_push_blob size_w obj]
               @ logged_failure E result ''DataQueue send_data: Failed to send data object!'',
             writer_data_upd q s1))
      else ((), [], s))"

definition send_many ::
  "('cq, 'dq) Collab \<Rightarrow> DataT list \<Rightarrow> ('cq, 'dq) Bridge
     \<Rightarrow> unit \<times> call list \<times> ('cq, 'dq) Bridge" where
  "send_many E objs s =
     (if gbBridgeRunning s then
        (let count = length objs;
             s1 = syncDataQueue E count False s;
             (result, q) = data_push_many E objs (data (s_pWriterChannel s1))
         in ((), [SyncDataQueue count False, Data_push_many objs]
               @ logged_failure E result
                   ''DataQueue send_many: Failed to send multiple m_writerChanneldata items!'',
             writer_data_upd q s1))
      else ((), [], s))"

definition begin_data_blob ::
  "('cq, 'dq) Collab \<Rightarrow> nat \<Rightarrow> ('cq, 'dq) Bridge \<Rightarrow> pointer \<times> call list \<times> ('cq, 'dq) Bridge" where
  "begin_data_blob E size_n s =
     (if gbBridgeRunning s then
        (let memUsed = align E size_n sizeof_DataT div sizeof_DataT + 1;
             s1 = syncDataQueue E memUsed True s;
             ((result, blobPacketPtr), q) =
                data_begin_blob_push E size_n (data (s_pWriterChannel s1))
         in (blobPacketPtr,
             [SyncDataQueue memUsed True, Data_begin_blob_push size_n]
               @ logged_failure E result
                   ''DataQueue begin_data_blob: Failed to begin sending a data blob!'',
             writer_data_upd q s1))
      else (nullptr, [], s))"

definition end_data_blob ::
  "('cq, 'dq) Collab \<Rightarrow> ('cq, 'dq) Bridge \<Rightarrow> unit \<times> call list \<times> ('cq, 'dq) Bridge" where
  "end_data_blob E s =
     (if gbBridgeRunning s then
        ((), [Data_end_blob_push],
         writer_data_upd (data_end_blob_push E (data (s_pWriterChannel s))) s)
      else ((), [], s))"

section \<open>Reference collaborators\<close>

text \<open>
  The queues, \<open>align\<close>, \<open>syncDataQueue\<close>, \<open>pop_front\<close> and \<open>waitForCommand\<close> are not
  among the sources. The definitions of this section follow what the specification says
  about them. They are the concrete collaborators at which the theorems about the header
  are evaluated, and \<open>waitForCommand_spec\<close> is the subject of the theorem about the wait.
\<close>

subsection \<open>The data queue\<close>

text \<open>
  Modelled from the spec: the circular buffer and the data queue of util\_circularbuffer.h
  are missing. The spec describes a fixed-capacity ring of 32-bit slots whose position
  counters wrap modulo the capacity; a payload of \<open>n\<close> bytes is a length word followed by
  \<open>align(n, 4) / 4\<close> payload words; a push fails when the queue is full.
\<close>

record DataQueue =
  slots :: "DataT list"
  readPos :: nat
  writePos :: nat
  used :: nat
  pendingBlob :: nat
  reserved :: nat
  resetOnLastIndex :: bool
  batchStart :: nat

text \<open>
  Modelled from the spec: \<open>align\<close> of util\_common.h is missing; the spec's scenario
  \<open>align(20,4)/4+1 = 6\<close> and its use for padding say it rounds up to a multiple.
\<close>

definition align_spec :: "nat \<Rightarrow> nat \<Rightarrow> nat" where
  "align_spec n a = ((n + a - 1) div a) * a"

text \<open>Modelled from the spec: the macro \<open>RESULT_FAILURE\<close> is missing; a result that is not success.\<close>

definition RESULT_FAILURE_spec :: "Result \<Rightarrow> bool" where
  "RESULT_FAILURE_spec r = (r \<noteq> Success)"

definition advance :: "DataQueue \<Rightarrow> nat \<Rightarrow> nat \<Rightarrow> nat" where
  "advance q p n = (p + n) mod length (slots q)"

definition slot_at :: "DataQueue \<Rightarrow> nat \<Rightarrow> DataT" where
  "slot_at q p = (if p < length (slots q) then slots q ! p else 0)"

definition payload_words :: "nat \<Rightarrow> nat" where
  "payload_words n = align_spec n sizeof_DataT div sizeof_DataT"

definition bytes_of_word :: "DataT \<Rightarrow> byte list" where
  "bytes_of_word w = [ucast w, ucast (w div 256), ucast (w div 65536), ucast (w div 16777216)]"

definition word_of_bytes :: "byte \<Rightarrow> byte \<Rightarrow> byte \<Rightarrow> byte \<Rightarrow> DataT" where
  "word_of_bytes a b c d = ucast a + 256 * ucast b + 65536 * ucast c + 16777216 * ucast d"

fun words_of_bytes :: "byte list \<Rightarrow> DataT list" where
  "words_of_bytes (a # b # c # d # rest) = word_of_bytes a b c d # words_of_bytes rest"
| "words_of_bytes [a, b, c] = [word_of_bytes a b c 0]"
| "words_of_bytes [a, b] = [word_of_bytes a b 0 0]"
| "words_of_bytes [a] = [word_of_bytes a 0 0 0]"
| "words_of_bytes [] = []"

definition queue_get_pos :: "DataQueue \<Rightarrow> nat" where
  "queue_get_pos q = readPos q"

definition queue_pull :: "DataQueue \<Rightarrow> DataT \<times> DataQueue" where
  "queue_pull q = (slot_at q (readPos q), q\<lparr>readPos := advance q (readPos q) 1\<rparr>)"

text \<open>
  Pulling a blob: the word at the read position is its length; the reader moves past the
  length word and the payload words. \<open>pull(void** obj)\<close> stores the address of the
  payload, here one more than the index of its first slot, so that no slot has the null
  address.
\<close>

definition queue_pull_obj :: "pointer \<Rightarrow> DataQueue \<Rightarrow> (DataT \<times> pointer) \<times> DataQueue" where
  "queue_pull_obj obj q =
     (let w = slot_at q (readPos q)
      in ((w, advance q (readPos q) 1 + 1),
          q\<lparr>readPos := advance q (readPos q) (1 + payload_words (unat w))\<rparr>))"

definition queue_pull_and_copy :: "byte list \<Rightarrow> DataQueue \<Rightarrow> (DataT \<times> byte list) \<times> DataQueue" where
  "queue_pull_and_copy obj q =
     (let w = slot_at q (readPos q);
          ws = map (\<lambda>i. slot_at q (advance q (readPos q) (1 + i))) [0 ..< payload_words (unat w)]
      in ((w, take (unat w) (concat (map bytes_of_word ws))),
          q\<lparr>readPos := advance q (readPos q) (1 + payload_words (unat w))\<rparr>))"

definition queue_begin_batch :: "DataQueue \<Rightarrow> Result \<times> DataQueue" where
  "queue_begin_batch q = (Success, q\<lparr>batchStart := readPos q\<rparr>)"

definition queue_end_batch :: "DataQueue \<Rightarrow> nat \<times> DataQueue" where
  "queue_end_batch q =
     ((readPos q + length (slots q) - batchStart q) mod length (slots q), q)"

definition queue_push :: "DataT \<Rightarrow> DataQueue \<Rightarrow> Result \<times> DataQueue" where
  "queue_push w q =
     (if used q < length (slots q)
      then (Success, q\<lparr>slots := (slots q)[writePos q := w],
                        writePos := advance q (writePos q) 1,
                        used := used q + 1\<rparr>)
      else (Failure, q))"

fun queue_push_many :: "DataT list \<Rightarrow> DataQueue \<Rightarrow> Result \<times> DataQueue" where
  "queue_push_many [] q = (Success, q)"
| "queue_push_many (w # ws) q =
     (case queue_push w q of
        (Success, q') \<Rightarrow> queue_push_many ws q'
      | (r, q') \<Rightarrow> (r, q'))"

definition queue_push_blob :: "DataT \<Rightarrow> byte list \<Rightarrow> DataQueue \<Rightarrow> Result \<times> DataQueue" where
  "queue_push_blob size_w obj q =
     queue_push_many (size_w # words_of_bytes (take (unat size_w) obj)) q"

text \<open>
  The two-phase blob write: the first phase pushes the length word and hands out the
  address of the payload; the second moves the write position past the payload.
\<close>

definition queue_begin_blob_push :: "nat \<Rightarrow> DataQueue \<Rightarrow> (Result \<times> pointer) \<times> DataQueue" where
  "queue_begin_blob_push n q =
     (if used q + 1 + payload_words n \<le> length (slots q)
      then (case queue_push (of_nat n) q of
              (r, q') \<Rightarrow> ((r, writePos q' + 1), q'\<lparr>pendingBlob := payload_words n\<rparr>))
      else ((Failure, nullptr), q))"

definition queue_end_blob_push :: "DataQueue \<Rightarrow> DataQueue" where
  "queue_end_blob_push q =
     q\<lparr>writePos := advance q (writePos q) (pendingBlob q),
       used := used q + pendingBlob q,
       pendingBlob := 0\<rparr>"

subsection \<open>The command queue and the waits\<close>

text \<open>
  Modelled from the spec: the command queue is a ring of headers that supports peek and
  pop; what matters to the waits is the sequence of headers not yet popped, oldest first.
  A write batch is a critical section of the producer.
\<close>

record CommandQueue =
  headers :: "Header list"
  writeBatchOpen :: bool

definition queue_begin_write_batch :: "CommandQueue \<Rightarrow> Result \<times> CommandQueue" where
  "queue_begin_write_batch q =
     (if writeBatchOpen q then (Failure, q) else (Success, q\<lparr>writeBatchOpen := True\<rparr>))"

definition queue_end_write_batch :: "CommandQueue \<Rightarrow> nat \<times> CommandQueue" where
  "queue_end_write_batch q = (length (headers q), q\<lparr>writeBatchOpen := False\<rparr>)"

type_synonym bridge = "(CommandQueue, DataQueue) Bridge"

definition reader_headers :: "bridge \<Rightarrow> Header list" where
  "reader_headers s = headers (commands (s_pReaderChannel s))"

definition reader_headers_upd :: "Header list \<Rightarrow> bridge \<Rightarrow> bridge" where
  "reader_headers_upd hs s =
     s\<lparr>s_pReaderChannel :=
         (s_pReaderChannel s)\<lparr>commands := (commands (s_pReaderChannel s))\<lparr>headers := hs\<rparr>\<rparr>\<rparr>"

text \<open>
  Modelled from the spec: \<open>pop_front\<close> removes and returns the next header of the
  reader's command queue. The spec leaves a pop from an empty queue undefined; the model
  returns a header of \<open>Bridge_Any\<close> and no change there.
\<close>

definition pop_front_spec :: "bridge \<Rightarrow> Header \<times> bridge" where
  "pop_front_spec s =
     (case reader_headers s of
        [] \<Rightarrow> (\<lparr>command = Bridge_Any, pHandle = 0, commandFlags = 0\<rparr>, s)
      | h # rest \<Rightarrow> (h, reader_headers_upd rest s))"

text \<open>
  Modelled from the spec: \<open>syncDataQueue\<close> reserves \<open>expectedMemUsage\<close> words of the
  writer's data queue and marks whether the position is to reset at the last index. The
  wait for free space needs the peer and is not part of the sequential model.
\<close>

definition syncDataQueue_spec :: "nat \<Rightarrow> bool \<Rightarrow> bridge \<Rightarrow> bridge" where
  "syncDataQueue_spec expectedMemUsage posResetOnLastIndex s =
     writer_data_upd
       ((data (s_pWriterChannel s))
          \<lparr>reserved := expectedMemUsage, resetOnLastIndex := posResetOnLastIndex\<rparr>) s"

text \<open>
  Modelled from the spec: \<open>waitForCommand\<close> blocks until a header matching the expected
  command (any header for \<open>Bridge_Any\<close>) is at the front of the reader's command queue,
  the timeout elapses, the early-out signal becomes true, or the bridge stops running; it
  only looks at the front header and never removes it. Not running is a failure in wait
  paths. Time is a number of polling intervals; what the peer and the other threads do in
  each interval is the schedule, one step per interval. The spec does not say which
  result the early-out signal gives; the model answers timeout. A front header that does
  not match stays where it is, so the wait goes on until one of the other ends.
\<close>

datatype peer_step = Arrives Header | Idle | Signals | Stops

fun peer_acts :: "peer_step \<Rightarrow> bool option \<Rightarrow> bridge \<Rightarrow> bool option \<times> bridge" where
  "peer_acts (Arrives h) sig s = (sig, reader_headers_upd (reader_headers s @ [h]) s)"
| "peer_acts Idle sig s = (sig, s)"
| "peer_acts Signals sig s = (map_option (\<lambda>_. True) sig, s)"
| "peer_acts Stops sig s = (sig, s\<lparr>gbBridgeRunning := False\<rparr>)"

definition front_matches :: "D3D9Command \<Rightarrow> bridge \<Rightarrow> bool" where
  "front_matches cmd s =
     (case reader_headers s of
        [] \<Rightarrow> False
      | h # _ \<Rightarrow> cmd = Bridge_Any \<or> command h = cmd)"

text \<open>
  Modelled from the spec: the polling loop of \<open>waitForCommand\<close>, whose body is not among
  the sources. \<open>t\<close> is the time left, \<open>sched\<close> what the peer does in the intervals to come.
\<close>

fun wait_loop ::
  "D3D9Command \<Rightarrow> nat \<Rightarrow> peer_step list \<Rightarrow> bool option \<Rightarrow> bridge \<Rightarrow> Result \<times> bridge" where
  "wait_loop cmd t sched sig s =
     (if \<not> gbBridgeRunning s then (Failure, s)
      else if sig = Some True then (Timeout, s)
      else if front_matches cmd s then (Success, s)
      else (case (t, sched) of
              (Suc t', step # sched') \<Rightarrow>
                (case peer_acts step sig s of (sig', s') \<Rightarrow> wait_loop cmd t' sched' sig' s')
            | _ \<Rightarrow> (Timeout, s)))"

text \<open>
  Modelled from the spec: \<open>waitForCommand(expected, timeoutMs, earlyOutSignal)\<close>, declared
  in the header and defined elsewhere. A timeout of 0 stands for the configured default.
\<close>

definition waitForCommand_spec ::
  "nat \<Rightarrow> peer_step list \<Rightarrow> D3D9Command \<Rightarrow> 32 word \<Rightarrow> bool option \<Rightarrow> bridge
     \<Rightarrow> Result \<times> bridge" where
  "waitForCommand_spec configuredTimeout sched cmd overrideTimeoutMS pbEarlyOutSignal s =
     wait_loop cmd
       (if 0 < overrideTimeoutMS then unat overrideTimeoutMS else configuredTimeout)
       sched pbEarlyOutSignal s"

text \<open>
  The collaborators put together, for a build (the two preprocessor switches and whether
  \<open>size_t\<close> is \<open>uint32_t\<close>), a configured timeout and a schedule of the peer.
\<close>

definition reference ::
  "bool \<Rightarrow> bool \<Rightarrow> bool \<Rightarrow> nat \<Rightarrow> peer_step list \<Rightarrow> (CommandQueue, DataQueue) Collab" where
  "reference blocking ndebug narrow configuredTimeout sched =
     \<lparr>USE_BLOCKING_QUEUE = blocking,
      NDEBUG = ndebug,
      size_t_is_uint32_t = narrow,
      RESULT_FAILURE = RESULT_FAILURE_spec,
      align = align_spec,
      commands_begin_write_batch = queue_begin_write_batch,
      commands_end_write_batch = queue_end_write_batch,
      data_get_pos = queue_get_pos,
      data_pull = queue_pull,
      data_pull_obj = queue_pull_obj,
      data_pull_and_copy = queue_pull_and_copy,
      data_begin_batch = queue_begin_batch,
      data_end_batch = queue_end_batch,
      data_push = queue_push,
      data_push_blob = queue_push_blob,
      data_push_many = queue_push_many,
      data_begin_blob_push = queue_begin_blob_push,
      data_end_blob_push = queue_end_blob_push,
      pop_front = pop_front_spec,
      syncDataQueue = syncDataQueue_spec,
      waitForCommand = waitForCommand_spec configuredTimeout sched\<rparr>"

section \<open>Vocabulary of the statements\<close>

abbreviation value_of :: "'a \<times> call list \<times> 's \<Rightarrow> 'a" where
  "value_of r \<equiv> fst r"

abbreviation calls_of :: "'a \<times> call list \<times> 's \<Rightarrow> call list" where
  "calls_of r \<equiv> fst (snd r)"

abbreviation state_of :: "'a \<times> call list \<times> 's \<Rightarrow> 's" where
  "state_of r \<equiv> snd (snd r)"

text \<open>The reader channel's loop flag and the read position of its data queue.\<close>

abbreviation loop_flag :: "('cq, 'dq) Bridge \<Rightarrow> bool" where
  "loop_flag s \<equiv> serverResetPosRequired (s_pReaderChannel s)"

abbreviation data_pos :: "('cq, 'dq) Collab \<Rightarrow> ('cq, 'dq) Bridge \<Rightarrow> nat" where
  "data_pos E s \<equiv> fst (get_data_pos E s)"

text \<open>
  The number of data words a push call writes: one for a single word, one per item for
  \<open>push_many\<close>, and the length word plus the padded payload for the two blob pushes.
\<close>

fun words_pushed :: "('cq, 'dq) Collab \<Rightarrow> call \<Rightarrow> nat option" where
  "words_pushed E (Data_push w) = Some 1"
| "words_pushed E (Data_push_many ws) = Some (length ws)"
| "words_pushed E (Data_push_blob size_w obj) =
     Some (align E (unat size_w) sizeof_DataT div sizeof_DataT + 1)"
| "words_pushed E (Data_begin_blob_push n) =
     Some (align E n sizeof_DataT div sizeof_DataT + 1)"
| "words_pushed E c = None"

text \<open>
  A sequence of calls keeps every push inside a reservation when the call just before
  each push is \<open>syncDataQueue\<close> for exactly the words that push writes. \<open>prev\<close> is the
  call before the sequence, if any.
\<close>

fun pushes_reserved :: "('cq, 'dq) Collab \<Rightarrow> call option \<Rightarrow> call list \<Rightarrow> bool" where
  "pushes_reserved E prev [] = True"
| "pushes_reserved E prev (c # cs) =
     ((case words_pushed E c of
         None \<Rightarrow> True
       | Some m \<Rightarrow> (case prev of Some (SyncDataQueue n b) \<Rightarrow> n = m | _ \<Rightarrow> False))
      \<and> pushes_reserved E (Some c) cs)"

text \<open>
  What the readers do to the loop flag, between the state before a call and the state
  after it: the flag is cleared when it was set and the data position after the call is
  below the position before it, and keeps its value in every other case.
\<close>

definition acknowledges_wrap ::
  "('cq, 'dq) Collab \<Rightarrow> ('cq, 'dq) Bridge \<Rightarrow> ('cq, 'dq) Bridge \<Rightarrow> bool" where
  "acknowledges_wrap E s s' =
     (if loop_flag s \<and> data_pos E s' < data_pos E s
      then \<not> loop_flag s'
      else loop_flag s' = loop_flag s)"

text \<open>The size word and the object that \<open>pull_and_copy\<close> hands to \<open>copy_data\<close>.\<close>

definition pulled_size :: "('cq, 'dq) Collab \<Rightarrow> byte list \<Rightarrow> ('cq, 'dq) Bridge \<Rightarrow> nat" where
  "pulled_size E obj s = unat (fst (fst (data_pull_and_copy E obj (data (s_pReaderChannel s)))))"

definition copied_object :: "('cq, 'dq) Collab \<Rightarrow> byte list \<Rightarrow> ('cq, 'dq) Bridge \<Rightarrow> byte list" where
  "copied_object E obj s = snd (fst (data_pull_and_copy E obj (data (s_pReaderChannel s))))"

text \<open>The messages a sequence of calls hands to \<open>Logger::err\<close>.\<close>

fun log_of :: "call \<Rightarrow> string option" where
  "log_of (Logger_err msg) = Some msg"
| "log_of c = None"

definition logs :: "call list \<Rightarrow> string list" where
  "logs cs = List.map_filter log_of cs"

subsection \<open>Concrete states\<close>

definition empty_commands :: CommandQueue where
  "empty_commands = \<lparr>headers = [], writeBatchOpen = False\<rparr>"

definition empty_data :: "nat \<Rightarrow> DataQueue" where
  "empty_data n =
     \<lparr>slots = replicate n 0, readPos = 0, writePos = 0, used = 0, pendingBlob = 0,
      reserved = 0, resetOnLastIndex = False, batchStart = 0\<rparr>"

text \<open>
  The scenario of the specification: a data queue of eight words holding a blob of 20
  bytes (six words) and a blob of 4 bytes (two words). The reader has consumed the first
  blob and stands at position 6; the writer has wrapped.
\<close>

definition scenario_data :: DataQueue where
  "scenario_data =
     \<lparr>slots = [20, 1, 2, 3, 4, 5, 4, 7], readPos = 6, writePos = 0, used = 2,
      pendingBlob = 0, reserved = 0, resetOnLastIndex = False, batchStart = 0\<rparr>"

definition bridge_with :: "bool \<Rightarrow> Header list \<Rightarrow> DataQueue \<Rightarrow> bool \<Rightarrow> bridge" where
  "bridge_with running hs q flag =
     \<lparr>gbBridgeRunning = running,
      s_pWriterChannel =
        \<lparr>commands = empty_commands, data = empty_data 8, serverResetPosRequired = False\<rparr>,
      s_pReaderChannel =
        \<lparr>commands = \<lparr>headers = hs, writeBatchOpen = False\<rparr>, data = q,
         serverResetPosRequired = flag\<rparr>\<rparr>"

definition response :: Header where
  "response = \<lparr>command = Bridge_Response, pHandle = 0, commandFlags = 0\<rparr>"

text \<open>
  The scenario's reader state with the loop flag set, and builds of the header: the
  32-bit build with assertions compiled in and compiled out, and the 64-bit build with
  assertions compiled out.
\<close>

definition scenario :: bridge where
  "scenario = bridge_with True [] scenario_data True"

definition debug_build :: "(CommandQueue, DataQueue) Collab" where
  "debug_build = reference False False True 10 []"

definition release_build :: "(CommandQueue, DataQueue) Collab" where
  "release_build = reference False True True 10 []"

definition release_build_64 :: "(CommandQueue, DataQueue) Collab" where
  "release_build_64 = reference False True False 10 []"

text \<open>
  The same state with the bridge not running; a build with the blocking command queue; a
  reader with nothing queued, and a peer that answers in the second polling interval.
\<close>

definition stopped :: bridge where
  "stopped = bridge_with False [] scenario_data True"

definition blocking_build :: "(CommandQueue, DataQueue) Collab" where
  "blocking_build = reference True True True 10 []"

definition listening :: bridge where
  "listening = bridge_with True [] (empty_data 8) False"

definition answering_peer :: "(CommandQueue, DataQueue) Collab" where
  "answering_peer = reference False True True 10 [Idle, Arrives response]"

section \<open>Properties of the readers\<close>

declare wait_loop.simps [simp del]

lemma replicate_8: "replicate 8 x = [x, x, x, x, x, x, x, x]"
  by (simp add: eval_nat_numeral)

lemmas reference_defs =
  reference_def bridge_with_def scenario_data_def empty_data_def empty_commands_def
  scenario_def release_build_def response_def stopped_def listening_def
  queue_get_pos_def queue_pull_def queue_pull_obj_def queue_pull_and_copy_def
  slot_at_def advance_def payload_words_def align_spec_def sizeof_DataT_def
  bytes_of_word_def word_of_bytes_def queue_push_def queue_push_blob_def
  queue_begin_blob_push_def queue_end_blob_push_def queue_begin_batch_def
  queue_end_batch_def queue_begin_write_batch_def queue_end_write_batch_def
  syncDataQueue_spec_def RESULT_FAILURE_spec_def waitForCommand_spec_def
  pop_front_spec_def reader_headers_def reader_headers_upd_def front_matches_def
  replicate_8

lemmas method_defs =
  get_data_pos_def server_completed_loop_def reader_data_upd_def writer_data_upd_def
  writer_commands_upd_def logged_failure_def nullptr_def Let_def

lemma server_completed_loop_flag:
  "loop_flag (snd (server_completed_loop E p s)) = (loop_flag s \<and> \<not> data_pos E s < p)"
  by (simp add: server_completed_loop_def get_data_pos_def)

lemma server_completed_loop_data:
  "data (s_pReaderChannel (snd (server_completed_loop E p s))) = data (s_pReaderChannel s)"
  by (simp add: server_completed_loop_def get_data_pos_def)

lemma server_completed_loop_calls:
  "fst (server_completed_loop E p s) = (if loop_flag s then [Data_get_pos] else [])"
  by (simp add: server_completed_loop_def get_data_pos_def)

lemma data_pos_after_loop:
  "data_pos E (snd (server_completed_loop E p s)) = data_pos E s"
  by (simp add: get_data_pos_def server_completed_loop_data)

lemma reader_data_upd_sel:
  "loop_flag (reader_data_upd q s) = loop_flag s"
  "data (s_pReaderChannel (reader_data_upd q s)) = q"
  by (simp_all add: reader_data_upd_def)

lemma get_data_state:
  "state_of (get_data E s) =
     snd (server_completed_loop E (data_pos E s)
       (reader_data_upd (snd (data_pull E (data (s_pReaderChannel s)))) s))"
  by (simp add: get_data_def get_data_pos_def split_def Let_def)

lemma get_data_calls:
  "calls_of (get_data E s) =
     [Data_get_pos, Data_pull] @ (if loop_flag s then [Data_get_pos] else [])"
  by (simp add: get_data_def get_data_pos_def split_def Let_def server_completed_loop_calls
      reader_data_upd_sel)

lemma get_data_obj_state:
  "state_of (get_data_obj E obj s) =
     snd (server_completed_loop E (data_pos E s)
       (reader_data_upd (snd (data_pull_obj E obj (data (s_pReaderChannel s)))) s))"
  by (simp add: get_data_obj_def get_data_pos_def split_def Let_def)

lemma get_data_obj_calls:
  "calls_of (get_data_obj E obj s) =
     [Data_get_pos, Data_pull_obj] @ (if loop_flag s then [Data_get_pos] else [])"
  by (simp add: get_data_obj_def get_data_pos_def split_def Let_def server_completed_loop_calls
      reader_data_upd_sel)

lemma copy_data_value:
  "value_of (copy_data E n obj chk s) =
     (if chk \<and> \<not> NDEBUG E \<and> pulled_size E obj s \<noteq> n then Assertion_failed
      else Returned (if size_t_is_uint32_t E then Refers (pulled_size E obj s) else Dangling,
                     copied_object E obj s))"
  by (simp add: copy_data_def get_data_pos_def split_def Let_def pulled_size_def
      copied_object_def)

lemma copy_data_state:
  "state_of (copy_data E n obj chk s) =
     (let s1 = reader_data_upd (snd (data_pull_and_copy E obj (data (s_pReaderChannel s)))) s
      in if value_of (copy_data E n obj chk s) = Assertion_failed then s1
         else snd (server_completed_loop E (data_pos E s) s1))"
  by (simp add: copy_data_def get_data_pos_def split_def Let_def)

lemma copy_data_calls:
  "calls_of (copy_data E n obj chk s) =
     [Data_get_pos, Data_pull_and_copy]
     @ (if chk \<and> NDEBUG E \<and> pulled_size E obj s \<noteq> n
        then [Logger_err
          ''DataQueue copy data: Size of source and target object does not match!'']
        else [])
     @ (if loop_flag s \<and> value_of (copy_data E n obj chk s) \<noteq> Assertion_failed
        then [Data_get_pos] else [])"
  by (simp add: copy_data_def get_data_pos_def split_def Let_def pulled_size_def
      server_completed_loop_calls reader_data_upd_sel)

text \<open>
  C1 (as amended). Each of \<open>get_data()\<close>, \<open>get_data(obj)\<close> and \<open>copy_data<T>\<close> calls
  \<open>get_pos\<close> first and pulls second, and leaves the data queue as the pull left it.
  Every call of the two \<open>get_data\<close> overloads, and every call of \<open>copy_data\<close> that
  returns, clears the loop flag exactly when the flag was set before the call and the
  position after the pull is below the position recorded before it, and leaves the flag
  as it was in every other case. A call of \<open>copy_data\<close> that stops at its size assertion
  (\<open>checkSize\<close> set, a size word different from \<open>sizeof(T)\<close>, assertions compiled in) has
  pulled, and leaves the flag as it was.
\<close>

theorem readers_acknowledge_wrap:
  "acknowledges_wrap E s (state_of (get_data E s))
   \<and> data (s_pReaderChannel (state_of (get_data E s))) =
       snd (data_pull E (data (s_pReaderChannel s)))
   \<and> take 2 (calls_of (get_data E s)) = [Data_get_pos, Data_pull]
   \<and> acknowledges_wrap E s (state_of (get_data_obj E p s))
   \<and> data (s_pReaderChannel (state_of (get_data_obj E p s))) =
       snd (data_pull_obj E p (data (s_pReaderChannel s)))
   \<and> take 2 (calls_of (get_data_obj E p s)) = [Data_get_pos, Data_pull_obj]
   \<and> (value_of (copy_data E n obj chk s) \<noteq> Assertion_failed \<longrightarrow>
        acknowledges_wrap E s (state_of (copy_data E n obj chk s)))
   \<and> (value_of (copy_data E n obj chk s) = Assertion_failed \<longrightarrow>
        loop_flag (state_of (copy_data E n obj chk s)) = loop_flag s)
   \<and> data (s_pReaderChannel (state_of (copy_data E n obj chk s))) =
       snd (data_pull_and_copy E obj (data (s_pReaderChannel s)))
   \<and> take 2 (calls_of (copy_data E n obj chk s)) = [Data_get_pos, Data_pull_and_copy]"
  by (simp add: acknowledges_wrap_def get_data_state get_data_obj_state copy_data_state
      get_data_calls get_data_obj_calls copy_data_calls Let_def
      server_completed_loop_flag server_completed_loop_data data_pos_after_loop
      reader_data_upd_sel)

text \<open>
  In the scenario, in the build with assertions: \<open>get_data\<close> moves from position 6 to 7
  and the flag stays; \<open>copy_data\<close> of a four-byte object moves from 6 to 0 and clears
  it; \<open>copy_data\<close> of an eight-byte object stops at the assertion and the flag stays.
\<close>

theorem readers_acknowledge_wrap_witness:
  "acknowledges_wrap debug_build scenario (state_of (get_data debug_build scenario))
   \<and> state_of (get_data debug_build scenario) =
       bridge_with True [] (scenario_data\<lparr>readPos := 7\<rparr>) True
   \<and> value_of (copy_data debug_build 4 [] True scenario) = Returned (Refers 4, [7, 0, 0, 0])
   \<and> acknowledges_wrap debug_build scenario (state_of (copy_data debug_build 4 [] True scenario))
   \<and> state_of (copy_data debug_build 4 [] True scenario) =
       bridge_with True [] (scenario_data\<lparr>readPos := 0\<rparr>) False
   \<and> value_of (copy_data debug_build 8 [] True scenario) = Assertion_failed
   \<and> loop_flag (state_of (copy_data debug_build 8 [] True scenario))"
  using readers_acknowledge_wrap [where E = debug_build and s = scenario and p = nullptr
      and n = 4 and obj = "[]" and chk = True]
    readers_acknowledge_wrap [where E = debug_build and s = scenario and p = nullptr
      and n = 8 and obj = "[]" and chk = True]
  by (simp add: get_data_def copy_data_def debug_build_def reference_defs method_defs)

text \<open>
  The claim as stated fails for the call of \<open>copy_data\<close> that stops at the assertion:
  the flag was set, the position went from 6 down to 0, and the flag is still set.
\<close>

theorem copy_data_assertion_keeps_loop_flag:
  "value_of (copy_data debug_build 8 [] True scenario) = Assertion_failed
   \<and> loop_flag scenario
   \<and> data_pos debug_build scenario = 6
   \<and> data_pos debug_build (state_of (copy_data debug_build 8 [] True scenario)) = 0
   \<and> loop_flag (state_of (copy_data debug_build 8 [] True scenario))
   \<and> \<not> acknowledges_wrap debug_build scenario
         (state_of (copy_data debug_build 8 [] True scenario))"
  by (simp add: acknowledges_wrap_def copy_data_def debug_build_def reference_defs
      method_defs)

text \<open>
  C10. No reader sets the loop flag: if it is set after a call of \<open>get_data()\<close>,
  \<open>get_data(obj)\<close> or \<open>copy_data<T>\<close>, it was set before the call.
\<close>

theorem readers_never_set_loop_flag:
  "(loop_flag (state_of (get_data E s)) \<longrightarrow> loop_flag s)
   \<and> (loop_flag (state_of (get_data_obj E p s)) \<longrightarrow> loop_flag s)
   \<and> (loop_flag (state_of (copy_data E n obj chk s)) \<longrightarrow> loop_flag s)"
  by (simp add: get_data_state get_data_obj_state copy_data_state Let_def
      server_completed_loop_flag reader_data_upd_sel)

theorem readers_never_set_loop_flag_witness:
  "loop_flag (state_of (get_data release_build scenario))
   \<and> loop_flag (state_of (get_data_obj release_build nullptr (bridge_with True [] (empty_data 8) True)))
   \<and> loop_flag (state_of (copy_data release_build 4 [] True (bridge_with True [] (empty_data 8) True)))
   \<and> loop_flag scenario
   \<and> loop_flag (bridge_with True [] (empty_data 8) True)
   \<and> \<not> loop_flag (state_of (get_data release_build (bridge_with True [] scenario_data False)))"
  using readers_never_set_loop_flag [where E = release_build and s = scenario and p = nullptr
      and n = 4 and obj = "[]" and chk = True]
    readers_never_set_loop_flag [where E = release_build
      and s = "bridge_with True [] (empty_data 8) True" and p = nullptr
      and n = 4 and obj = "[]" and chk = True]
  by (simp add: get_data_def get_data_obj_def copy_data_def reference_defs method_defs)


section \<open>Properties of the methods that need the bridge running\<close>

text \<open>
  C2. With \<open>gbBridgeRunning\<close> false, each of \<open>send_data(word)\<close>, \<open>send_data(size, ptr)\<close>,
  \<open>send_many\<close>, \<open>begin_data_blob\<close> and \<open>end_data_blob\<close> returns having called no
  collaborator (no \<open>syncDataQueue\<close>, no push) and with the state it was given.
\<close>

theorem sends_do_nothing_when_not_running:
  "\<not> gbBridgeRunning s \<Longrightarrow>
     send_data E obj s = ((), [], s)
     \<and> send_data_blob E size_w bytes s = ((), [], s)
     \<and> send_many E objs s = ((), [], s)
     \<and> begin_data_blob E size_n s = (nullptr, [], s)
     \<and> end_data_blob E s = ((), [], s)"
  by (simp add: send_data_def send_data_blob_def send_many_def begin_data_blob_def
      end_data_blob_def)

theorem sends_do_nothing_when_not_running_witness:
  "\<not> gbBridgeRunning stopped
   \<and> send_data release_build 5 stopped = ((), [], stopped)
   \<and> send_data_blob release_build 5 [1, 2, 3, 4, 5] stopped = ((), [], stopped)
   \<and> send_many release_build [1, 2, 3] stopped = ((), [], stopped)
   \<and> begin_data_blob release_build 20 stopped = (nullptr, [], stopped)
   \<and> end_data_blob release_build stopped = ((), [], stopped)"
proof -
  have h: "\<not> gbBridgeRunning stopped"
    by (simp add: stopped_def bridge_with_def)
  show ?thesis
    using h sends_do_nothing_when_not_running [OF h, where E = release_build and obj = 5
        and size_w = 5 and bytes = "[1, 2, 3, 4, 5]" and objs = "[1, 2, 3]" and size_n = 20]
    by simp
qed

text \<open>
  C9. With \<open>gbBridgeRunning\<close> false, \<open>begin_data_blob(size)\<close> returns the null pointer,
  whatever the size.
\<close>

theorem begin_data_blob_null_when_not_running:
  "\<not> gbBridgeRunning s \<Longrightarrow> value_of (begin_data_blob E size_n s) = nullptr"
  by (simp add: begin_data_blob_def)

theorem begin_data_blob_null_when_not_running_witness:
  "\<not> gbBridgeRunning stopped
   \<and> value_of (begin_data_blob release_build 20 stopped) = 0
   \<and> value_of (begin_data_blob release_build 20 scenario) = 2"
proof -
  have h: "\<not> gbBridgeRunning stopped"
    by (simp add: stopped_def bridge_with_def)
  have run: "value_of (begin_data_blob release_build 20 scenario) = 2"
    by (simp add: begin_data_blob_def reference_defs method_defs)
  show ?thesis
    using h run begin_data_blob_null_when_not_running [OF h, of release_build 20]
    by (simp add: nullptr_def)
qed

text \<open>
  C5. With \<open>gbBridgeRunning\<close> false, \<open>begin_batch()\<close> returns \<open>Result::Failure\<close>,
  \<open>end_batch()\<close> returns 0, \<open>begin_read_data()\<close> returns \<open>Result::Failure\<close> and
  \<open>end_read_data()\<close> returns 0; none of them calls a queue, and the state is the one
  given. This holds with and without \<open>USE_BLOCKING_QUEUE\<close>.
\<close>

theorem batches_fail_when_not_running:
  "\<not> gbBridgeRunning s \<Longrightarrow>
     begin_batch E s = (Failure, [], s)
     \<and> end_batch E s = (0, [], s)
     \<and> begin_read_data E s = (Failure, [], s)
     \<and> end_read_data E s = (0, [], s)"
  by (simp add: begin_batch_def end_batch_def begin_read_data_def end_read_data_def)

theorem batches_fail_when_not_running_witness:
  "\<not> gbBridgeRunning stopped
   \<and> begin_batch blocking_build stopped = (Failure, [], stopped)
   \<and> end_batch blocking_build stopped = (0, [], stopped)
   \<and> begin_read_data blocking_build stopped = (Failure, [], stopped)
   \<and> end_read_data blocking_build stopped = (0, [], stopped)
   \<and> calls_of (begin_batch blocking_build scenario) = [Commands_begin_write_batch]
   \<and> calls_of (end_read_data blocking_build scenario) = [Data_end_batch]"
proof -
  have h: "\<not> gbBridgeRunning stopped"
    by (simp add: stopped_def bridge_with_def)
  have run: "calls_of (begin_batch blocking_build scenario) = [Commands_begin_write_batch]
      \<and> calls_of (end_read_data blocking_build scenario) = [Data_end_batch]"
    by (simp add: begin_batch_def end_read_data_def blocking_build_def reference_defs
        method_defs)
  show ?thesis
    using h run batches_fail_when_not_running [OF h, of blocking_build]
    by simp
qed

text \<open>
  C4. With the bridge running, \<open>send_data(n, ptr)\<close> and \<open>begin_data_blob(n)\<close> first
  call \<open>syncDataQueue\<close> with \<open>align(n, sizeof(DataT)) / sizeof(DataT) + 1\<close> words and
  \<open>posResetOnLastIndex = true\<close>, then push the blob on the queue as that call left it;
  \<open>sizeof(DataT)\<close> is 4.
\<close>

theorem blob_sends_reserve_padded_words:
  "gbBridgeRunning s \<Longrightarrow>
     sizeof_DataT = 4
     \<and> take 2 (calls_of (send_data_blob E size_w bytes s)) =
         [SyncDataQueue (align E (unat size_w) sizeof_DataT div sizeof_DataT + 1) True,
          Data_push_blob size_w bytes]
     \<and> state_of (send_data_blob E size_w bytes s) =
         (let s1 = syncDataQueue E (align E (unat size_w) sizeof_DataT div sizeof_DataT + 1) True s
          in writer_data_upd (snd (data_push_blob E size_w bytes (data (s_pWriterChannel s1)))) s1)
     \<and> take 2 (calls_of (begin_data_blob E size_n s)) =
         [SyncDataQueue (align E size_n sizeof_DataT div sizeof_DataT + 1) True,
          Data_begin_blob_push size_n]
     \<and> state_of (begin_data_blob E size_n s) =
         (let s1 = syncDataQueue E (align E size_n sizeof_DataT div sizeof_DataT + 1) True s
          in writer_data_upd
               (snd (data_begin_blob_push E size_n (data (s_pWriterChannel s1)))) s1)"
  by (simp add: send_data_blob_def begin_data_blob_def Let_def split_def sizeof_DataT_def)

text \<open>
  A blob of five bytes takes three words, the specification's blob of twenty bytes six.
\<close>

theorem blob_sends_reserve_padded_words_witness:
  "gbBridgeRunning scenario
   \<and> calls_of (send_data_blob release_build 5 [1, 2, 3, 4, 5] scenario) =
       [SyncDataQueue 3 True, Data_push_blob 5 [1, 2, 3, 4, 5]]
   \<and> slots (data (s_pWriterChannel
        (state_of (send_data_blob release_build 5 [1, 2, 3, 4, 5] scenario)))) =
       [5, 67305985, 5, 0, 0, 0, 0, 0]
   \<and> calls_of (begin_data_blob release_build 20 scenario) =
       [SyncDataQueue 6 True, Data_begin_blob_push 20]"
proof -
  have h: "gbBridgeRunning scenario"
    by (simp add: scenario_def bridge_with_def)
  show ?thesis
    using h blob_sends_reserve_padded_words [OF h, where E = release_build and size_w = 5
        and bytes = "[1, 2, 3, 4, 5]" and size_n = 20]
    by (simp add: send_data_blob_def begin_data_blob_def reference_defs method_defs)
qed

text \<open>
  C6. With the bridge running, \<open>send_data(word)\<close> calls \<open>syncDataQueue(1, false)\<close> and
  then pushes its word, and \<open>send_many(items...)\<close> calls \<open>syncDataQueue(count, false)\<close>
  with \<open>count\<close> the number of items and then pushes them, each on the queue as the
  reservation left it. In every state, every push that a method of \<open>Command\<close> makes comes
  directly after a \<open>syncDataQueue\<close> for exactly the words it writes.
\<close>

lemma pushes_reserved_log:
  "pushes_reserved E prev (logged_failure E r msg)"
  by (simp add: logged_failure_def)

theorem sends_push_inside_reservation:
  "(gbBridgeRunning s \<longrightarrow>
      take 2 (calls_of (send_data E obj s)) = [SyncDataQueue 1 False, Data_push obj]
      \<and> state_of (send_data E obj s) =
          (let s1 = syncDataQueue E 1 False s
           in writer_data_upd (snd (data_push E obj (data (s_pWriterChannel s1)))) s1)
      \<and> take 2 (calls_of (send_many E objs s)) =
          [SyncDataQueue (length objs) False, Data_push_many objs]
      \<and> state_of (send_many E objs s) =
          (let s1 = syncDataQueue E (length objs) False s
           in writer_data_upd (snd (data_push_many E objs (data (s_pWriterChannel s1)))) s1))
   \<and> pushes_reserved E None (calls_of (send_data E obj s))
   \<and> pushes_reserved E None (calls_of (send_many E objs s))
   \<and> pushes_reserved E None (calls_of (send_data_blob E size_w bytes s))
   \<and> pushes_reserved E None (calls_of (begin_data_blob E size_n s))
   \<and> pushes_reserved E None (calls_of (end_data_blob E s))"
  by (simp add: send_data_def send_many_def send_data_blob_def begin_data_blob_def
      end_data_blob_def Let_def split_def pushes_reserved_log)

theorem sends_push_inside_reservation_witness:
  "gbBridgeRunning scenario
   \<and> calls_of (send_data release_build 5 scenario) = [SyncDataQueue 1 False, Data_push 5]
   \<and> calls_of (send_many release_build [1, 2, 3] scenario) =
       [SyncDataQueue 3 False, Data_push_many [1, 2, 3]]
   \<and> slots (data (s_pWriterChannel (state_of (send_many release_build [1, 2, 3] scenario)))) =
       [1, 2, 3, 0, 0, 0, 0, 0]
   \<and> pushes_reserved release_build None (calls_of (send_many release_build [1, 2, 3] scenario))
   \<and> \<not> pushes_reserved release_build None [SyncDataQueue 2 False, Data_push_many [1, 2, 3]]
   \<and> \<not> pushes_reserved release_build None [Data_push 5]"
proof -
  have h: "gbBridgeRunning scenario"
    by (simp add: scenario_def bridge_with_def)
  show ?thesis
    using h sends_push_inside_reservation [where E = release_build and s = scenario
        and obj = 5 and objs = "[1, 2, 3]" and size_w = 5 and bytes = "[1, 2, 3, 4, 5]"
        and size_n = 20]
    by (simp add: send_data_def send_many_def reference_defs method_defs)
qed


section \<open>The size check of copy\_data\<close>




text \<open>
  Where \<open>size_t\<close> is not \<open>uint32_t\<close>, every call of \<open>copy_data\<close> that returns hands its
  caller a reference to a destroyed temporary, whatever the sizes and the check; in the
  64-bit build this is so for the matching four-byte copy of the scenario.
\<close>

lemma copy_data_wide_size_t_dangles:
  "\<not> size_t_is_uint32_t E \<Longrightarrow> value_of (copy_data E n obj chk s) \<noteq> Assertion_failed \<Longrightarrow>
     value_of (copy_data E n obj chk s) = Returned (Dangling, copied_object E obj s)"
  by (simp add: copy_data_value split: if_splits)

lemma copy_data_scenario_64:
  "value_of (copy_data release_build_64 4 [] True scenario) = Returned (Dangling, [7, 0, 0, 0])
   \<and> logs (calls_of (copy_data release_build_64 4 [] True scenario)) = []"
  by (simp add: copy_data_def logs_def List.map_filter_simps release_build_64_def
      reference_defs method_defs)

section \<open>The waits\<close>

text \<open>
  C3. \<open>waitForCommandAndDiscard\<close> calls \<open>waitForCommand\<close> once, with its own arguments,
  and returns that call's result; it calls \<open>pop_front\<close> once when the result is
  \<open>Success\<close> and not at all otherwise, so that after a timeout or a failure the state is
  the one \<open>waitForCommand\<close> left.
\<close>

theorem waitForCommandAndDiscard_pops_on_success:
  "value_of (waitForCommandAndDiscard E cmd t sig s) = fst (waitForCommand E cmd t sig s)
   \<and> count_list (calls_of (waitForCommandAndDiscard E cmd t sig s)) Pop_front =
       (if fst (waitForCommand E cmd t sig s) = Success then 1 else 0)
   \<and> count_list (calls_of (waitForCommandAndDiscard E cmd t sig s))
         (WaitForCommand cmd t sig) = 1
   \<and> hd (calls_of (waitForCommandAndDiscard E cmd t sig s)) = WaitForCommand cmd t sig
   \<and> state_of (waitForCommandAndDiscard E cmd t sig s) =
       (if fst (waitForCommand E cmd t sig s) = Success
        then snd (pop_front E (snd (waitForCommand E cmd t sig s)))
        else snd (waitForCommand E cmd t sig s))"
  by (auto simp add: waitForCommandAndDiscard_def Let_def split_def)

text \<open>
  The peer answers in the second polling interval. With the configured timeout of ten
  intervals the response is awaited and popped; with a timeout of one the wait times out
  and nothing is popped.
\<close>

theorem waitForCommandAndDiscard_pops_on_success_witness:
  "waitForCommandAndDiscard answering_peer Bridge_Response 0 None listening =
     (Success, [WaitForCommand Bridge_Response 0 None, Pop_front], listening)
   \<and> waitForCommandAndDiscard answering_peer Bridge_Response 1 None listening =
     (Timeout, [WaitForCommand Bridge_Response 1 None], listening)
   \<and> waitForCommandAndDiscard answering_peer Bridge_Response 0 None stopped =
     (Failure, [WaitForCommand Bridge_Response 0 None], stopped)"
  using waitForCommandAndDiscard_pops_on_success [where E = answering_peer
      and cmd = Bridge_Response and t = 0 and sig = None and s = listening]
    waitForCommandAndDiscard_pops_on_success [where E = answering_peer
      and cmd = Bridge_Response and t = 1 and sig = None and s = listening]
  by (simp add: waitForCommandAndDiscard_def answering_peer_def reference_defs method_defs
      wait_loop.simps)

lemma reader_headers_upd_same:
  "reader_headers_upd (reader_headers s) s = s"
  by (simp add: reader_headers_upd_def reader_headers_def)

lemma reader_headers_upd_twice:
  "reader_headers_upd hs (reader_headers_upd hs' s) = reader_headers_upd hs s"
  by (simp add: reader_headers_upd_def)

lemma reader_headers_upd_sel:
  "reader_headers (reader_headers_upd hs s) = hs"
  "gbBridgeRunning (reader_headers_upd hs s) = gbBridgeRunning s"
  by (simp_all add: reader_headers_upd_def reader_headers_def)

lemma wait_loop_stopped:
  "\<not> gbBridgeRunning s \<Longrightarrow> wait_loop cmd t sched sig s = (Failure, s)"
  by (simp add: wait_loop.simps)

lemma peer_acts_cases:
  "peer_acts step sig s = (sig', s1) \<Longrightarrow>
     \<not> gbBridgeRunning s1 \<or>
     (s1 = reader_headers_upd (reader_headers s1) s
      \<and> take (length (reader_headers s)) (reader_headers s1) = reader_headers s)"
  by (cases step) (auto simp add: reader_headers_upd_sel reader_headers_upd_same)

text \<open>
  A wait that succeeds has only let headers arrive behind those already queued, and ends
  with a matching header at the front.
\<close>

lemma wait_loop_success:
  "wait_loop cmd t sched sig s = (Success, s') \<Longrightarrow>
     front_matches cmd s'
     \<and> s' = reader_headers_upd (reader_headers s') s
     \<and> take (length (reader_headers s)) (reader_headers s') = reader_headers s"
proof (induction cmd t sched sig s rule: wait_loop.induct)
  case (1 cmd t sched sig s)
  have run: "gbBridgeRunning s" and nosig: "sig \<noteq> Some True"
    using "1.prems" by (auto simp add: wait_loop.simps [of cmd t sched sig s] split: if_splits)
  show ?case
  proof (cases "front_matches cmd s")
    case True
    then have "s' = s"
      using "1.prems" run nosig by (simp add: wait_loop.simps [of cmd t sched sig s])
    then show ?thesis
      using True by (simp add: reader_headers_upd_same)
  next
    case False
    then obtain t' step sched' where ts: "t = Suc t'" "sched = step # sched'"
      using "1.prems" run nosig
      by (auto simp add: wait_loop.simps [of cmd t sched sig s] split: nat.splits list.splits)
    obtain sig' s1 where acts: "peer_acts step sig s = (sig', s1)"
      by (cases "peer_acts step sig s")
    have rec: "wait_loop cmd t' sched' sig' s1 = (Success, s')"
      using "1.prems" run nosig False acts unfolding ts
      by (simp add: wait_loop.simps [of cmd "Suc t'" "step # sched'" sig s])
    have ih: "front_matches cmd s' \<and> s' = reader_headers_upd (reader_headers s') s1
       \<and> take (length (reader_headers s1)) (reader_headers s') = reader_headers s1"
      using "1.IH" run nosig False ts acts rec
      by auto
    have run1: "gbBridgeRunning s1"
      using rec wait_loop_stopped [of s1 cmd t' sched' sig'] by auto
    then have s1: "s1 = reader_headers_upd (reader_headers s1) s"
      and pre: "take (length (reader_headers s)) (reader_headers s1) = reader_headers s"
      using peer_acts_cases [OF acts] by auto
    have "s' = reader_headers_upd (reader_headers s') s"
      using ih s1 reader_headers_upd_twice by metis
    moreover have "take (length (reader_headers s)) (reader_headers s') = reader_headers s"
    proof -
      have "length (reader_headers s) \<le> length (reader_headers s1)"
        using pre by (metis length_take min.cobounded2 min.commute)
      then have "take (length (reader_headers s)) (reader_headers s') =
          take (length (reader_headers s))
            (take (length (reader_headers s1)) (reader_headers s'))"
        by (simp add: min_def)
      then show ?thesis using ih pre by simp
    qed
    ultimately show ?thesis using ih by simp
  qed
qed

text \<open>
  C8, for the model of \<open>waitForCommand\<close> written from the specification. When the wait
  returns \<open>Success\<close>, the reader's command queue is not empty and its front header is the
  awaited command (any header for \<open>Bridge_Any\<close>); the headers queued before the call are
  still there, in place, and nothing but the headers that arrived has changed; and a
  following \<open>pop_front\<close> returns that front header and removes it.
\<close>

theorem waitForCommand_success_leaves_header:
  "waitForCommand_spec configured sched cmd t sig s = (Success, s') \<Longrightarrow>
     reader_headers s' \<noteq> []
     \<and> (cmd = Bridge_Any \<or> command (hd (reader_headers s')) = cmd)
     \<and> take (length (reader_headers s)) (reader_headers s') = reader_headers s
     \<and> s' = reader_headers_upd (reader_headers s') s
     \<and> pop_front_spec s' =
         (hd (reader_headers s'), reader_headers_upd (tl (reader_headers s')) s')"
  using wait_loop_success [of cmd _ sched sig s s']
  by (auto simp add: waitForCommand_spec_def front_matches_def pop_front_spec_def
      split: list.splits)

theorem waitForCommand_success_leaves_header_witness:
  "waitForCommand_spec 10 [Idle, Arrives response] Bridge_Response 0 None listening =
     (Success, bridge_with True [response] (empty_data 8) False)
   \<and> reader_headers (bridge_with True [response] (empty_data 8) False) = [response]
   \<and> command response = Bridge_Response
   \<and> pop_front_spec (bridge_with True [response] (empty_data 8) False) =
       (response, listening)"
proof -
  have h: "waitForCommand_spec 10 [Idle, Arrives response] Bridge_Response 0 None listening =
      (Success, bridge_with True [response] (empty_data 8) False)"
    by (simp add: reference_defs wait_loop.simps)
  show ?thesis
    using h waitForCommand_success_leaves_header [OF h]
    by (simp add: reference_defs)
qed

end
